theory Spec2Isabelle
  imports Main
begin

section \<open>Python values used by dev.py\<close>

text \<open>
  Python strings are modelled as \<^typ>\<open>string\<close>; a character stands for the code point of
  the same number, so the model covers the code points below 256.  Python integers are
  unbounded and modelled as \<^typ>\<open>int\<close>.
\<close>

definition digit_char :: "nat \<Rightarrow> char" where
  "digit_char d = char_of (48 + d)"

text \<open>\<open>str\<close> on a non-negative integer: its decimal digits, most significant first.\<close>

fun str_nat :: "nat \<Rightarrow> string" where
  "str_nat n = (if n < 10 then [digit_char n] else str_nat (n div 10) @ [digit_char (n mod 10)])"

declare str_nat.simps [simp del]

text \<open>\<open>str\<close> on an integer: a minus sign for a negative one.\<close>

definition str_int :: "int \<Rightarrow> string" where
  "str_int i = (if i < 0 then CHR ''-'' # str_nat (nat (- i)) else str_nat (nat i))"

text \<open>\<open>sep.join(xs)\<close>.\<close>

fun join :: "string \<Rightarrow> string list \<Rightarrow> string" where
  "join sep [] = []"
| "join sep [x] = x"
| "join sep (x # y # ys) = x @ sep @ join sep (y # ys)"

text \<open>\<open>range(a, b)\<close> as the list of its integers.\<close>

definition py_range :: "int \<Rightarrow> int \<Rightarrow> int list" where
  "py_range a b = [a..b - 1]"

text \<open>
  \<open>str.strip()\<close> removes the leading and the trailing whitespace; among the code points
  below 256, \<open>str.isspace\<close> holds of 9 to 13, 28 to 32, 133 and 160.
\<close>

definition is_space :: "char \<Rightarrow> bool" where
  "is_space c = (let n = (of_char c :: nat) in
     (9 \<le> n \<and> n \<le> 13) \<or> (28 \<le> n \<and> n \<le> 32) \<or> n = 133 \<or> n = 160)"

definition strip :: "string \<Rightarrow> string" where
  "strip s = rev (dropWhile is_space (rev (dropWhile is_space s)))"

text \<open>
  \<open>s.split(sep)\<close> with a one-character separator: every occurrence of the separator
  ends a token, so the empty string gives one empty token and two separators in a row
  give an empty token between them.
\<close>

fun split_sep :: "char \<Rightarrow> string \<Rightarrow> string list" where
  "split_sep sep [] = [[]]"
| "split_sep sep (c # cs) =
     (if c = sep then [] # split_sep sep cs
      else (case split_sep sep cs of
              [] \<Rightarrow> [[c]]
            | w # ws \<Rightarrow> (c # w) # ws))"

text \<open>
  \<open>repr\<close> of a string: single quotes, unless the string has a single quote and no
  double quote; the quote and the backslash are escaped, tab, newline and return have
  their letter, every other non-printable code point is written \<open>\xhh\<close>.
\<close>

definition hex_char :: "nat \<Rightarrow> char" where
  "hex_char d = (if d < 10 then char_of (48 + d) else char_of (87 + d))"

definition repr_char :: "char \<Rightarrow> char \<Rightarrow> string" where
  "repr_char quote c = (let n = (of_char c :: nat) in
     if c = quote \<or> n = 92 then [char_of (92::nat), c]
     else if n = 9 then [char_of (92::nat), CHR ''t'']
     else if n = 10 then [char_of (92::nat), CHR ''n'']
     else if n = 13 then [char_of (92::nat), CHR ''r'']
     else if n < 32 \<or> (127 \<le> n \<and> n \<le> 160) \<or> n = 173
       then [char_of (92::nat), CHR ''x'', hex_char (n div 16), hex_char (n mod 16)]
     else [c])"

definition repr_str :: "string \<Rightarrow> string" where
  "repr_str s = (let quote = (if char_of (39::nat) \<in> set s \<and> char_of (34::nat) \<notin> set s
                               then char_of (34::nat) else char_of (39::nat))
                 in quote # concat (map (repr_char quote) s) @ [quote])"

text \<open>\<open>str\<close> of a list of strings, as \<open>print(args)\<close> writes it.\<close>

definition repr_list :: "string list \<Rightarrow> string" where
  "repr_list xs = ''['' @ join '', '' (map repr_str xs) @ '']''"

text \<open>
  Floats: \<open>i/10\<close> on two integers, \<open>math.sin\<close> and \<open>str\<close> on a float are operations of
  the Python runtime, not of this script.  The generators take them as a record of
  operations over a type of floats, and every statement about them holds for each such
  record.
\<close>

record 'f float_ops =
  true_div :: "int \<Rightarrow> int \<Rightarrow> 'f"
  math_sin :: "'f \<Rightarrow> 'f"
  str_float :: "'f \<Rightarrow> string"

text \<open>
  One record of float operations that computes: a float is the expression that made it.
  It runs the generators on concrete inputs.
\<close>

datatype sym_float = Quot int int | Sin sym_float

fun show_sym :: "sym_float \<Rightarrow> string" where
  "show_sym (Quot a b) = str_int a @ ''/'' @ str_int b"
| "show_sym (Sin v) = ''sin('' @ show_sym v @ '')''"

definition sym_ops :: "sym_float float_ops" where
  "sym_ops = \<lparr>true_div = Quot, math_sin = Sin, str_float = show_sym\<rparr>"

section \<open>The generators\<close>

text \<open>
  \<open>to_str(x)\<close> is \<open>", ".join(map(str, x))\<close>; the source calls it on lists of integers
  and on lists of floats, so the rendering of an element is an argument.
\<close>

definition to_str :: "('a \<Rightarrow> string) \<Rightarrow> 'a list \<Rightarrow> string" where
  "to_str str_of x = join '', '' (map str_of x)"

text \<open>
  A generator prints diagnostics and returns the token list: the model returns the
  printed lines together with the tokens.
\<close>

type_synonym gen_result = "string list \<times> string list"

text \<open>The locals \<open>x\<close> and \<open>y\<close> of \<open>test2\<close>; \<open>y.extend(y)\<close> appends a copy of \<open>y\<close> to it.\<close>

definition test2_x :: "int list" where
  "test2_x = py_range 0 5"

definition test2_y :: "int list" where
  "test2_y = (let y = py_range 0 8 in y @ y)"

definition test2 :: "string list \<Rightarrow> gen_result" where
  "test2 aes =
     ([join '', '' (map str_int test2_x), join '', '' (map str_int test2_y)],
      [''-x'', to_str str_int test2_x, ''-y'', to_str str_int test2_y] @ aes)"

text \<open>\<open>test1\<close>: \<open>x = [i/10 for i in range(0, 100)]\<close>, \<open>y = [math.sin(i) for i in x]\<close>.\<close>

definition test1_x :: "'f float_ops \<Rightarrow> 'f list" where
  "test1_x F = map (\<lambda>i. true_div F i 10) (py_range 0 100)"

definition test1_y :: "'f float_ops \<Rightarrow> 'f list" where
  "test1_y F = map (math_sin F) (test1_x F)"

definition len_line :: "'a list \<Rightarrow> 'b list \<Rightarrow> string" where
  "len_line x y =
     ''len(x)='' @ str_int (int (length x)) @ '', len(y)='' @ str_int (int (length y))"

definition test1 :: "'f float_ops \<Rightarrow> string list \<Rightarrow> gen_result" where
  "test1 F aes =
     ([len_line (test1_x F) (test1_y F)],
      [''-x'', to_str (str_float F) (test1_x F), ''-y'', to_str (str_float F) (test1_y F)] @ aes)"

text \<open>\<open>test3\<close>: \<open>x = [i/5 for i in range(0, 5)]\<close>, \<open>y = [math.sin(i) for i in x]\<close>.\<close>

definition test3_x :: "'f float_ops \<Rightarrow> 'f list" where
  "test3_x F = map (\<lambda>i. true_div F i 5) (py_range 0 5)"

definition test3_y :: "'f float_ops \<Rightarrow> 'f list" where
  "test3_y F = map (math_sin F) (test3_x F)"

definition test3 :: "'f float_ops \<Rightarrow> string list \<Rightarrow> gen_result" where
  "test3 F aes =
     ([len_line (test3_x F) (test3_y F)],
      [''-x'', to_str (str_float F) (test3_x F), ''-y'', to_str (str_float F) (test3_y F)] @ aes)"

text \<open>
  \<open>test4\<close>, \<open>test5\<close> and \<open>test6\<close> split a literal on single spaces, print the list and
  return it; \<open>aes\<close> is not used.
\<close>

definition test4 :: "string list \<Rightarrow> gen_result" where
  \<open>test4 aes =
     (let args = ''-P -x "1,2,3" -y "1,4,9" -t lines -c red'' @ '' '' @
                 ''-P -x "1,2,3" -y "2,3,4" -t points -c blue'';
          args = split_sep CHR '' '' args
      in ([repr_list args], args))\<close>

definition test5 :: "string list \<Rightarrow> gen_result" where
  \<open>test5 aes =
     (let args = ''-P --file test.dat -x1 -y2 -t lines -c red'' @ '' '' @
                 ''-P -x "1,2,3,4" -y "3,6,9,12" -t points -c blue'';
          args = split_sep CHR '' '' args
      in ([repr_list args], args))\<close>

definition test6 :: "string list \<Rightarrow> gen_result" where
  \<open>test6 aes =
     (let args = ''-P -x "1,2,3,4" -y "3,6,9,12" -t points -c blue'' @ '' '' @
                 ''-P --file test.dat -x1 -y2 -t lines -c red'';
          args = split_sep CHR '' '' args
      in ([repr_list args], args))\<close>

text \<open>The table \<open>test_cases\<close>.\<close>

definition test_cases :: "'f float_ops \<Rightarrow> int \<rightharpoonup> (string list \<Rightarrow> gen_result)" where
  "test_cases F =
     map_of [(1, test1 F), (2, test2), (3, test3 F), (4, test4), (5, test5), (6, test6)]"

section \<open>The dispatcher\<close>

text \<open>
  What one run of the script did: the texts given to \<open>print\<close>, in order; the argument
  vectors given to \<open>subprocess.Popen\<close>; the number of calls of \<open>proc.terminate()\<close>; and
  how the run stands: still in the wait loop, ended with an exit status, or ended by an
  exception that nothing catches.
\<close>

datatype ending = Waiting | Exited int | Fault

record run =
  stdout :: "string list"
  launched :: "string list list"
  terminate_requests :: nat
  ending :: ending

text \<open>
  One turn of the wait loop sees the child still running (\<open>proc.poll()\<close> is \<open>None\<close>, the
  sleep ends), sees it exited, or is cut by \<open>KeyboardInterrupt\<close> in the poll or in the
  sleep.  The loop consumes what the turns see, in order; when the list ends with the
  child still running, the run is still waiting.
\<close>

datatype event = Child_Running | Child_Exited | Keyboard_Interrupt

fun wait_loop :: "event list \<Rightarrow> run \<Rightarrow> run" where
  "wait_loop [] r = r"
| "wait_loop (Child_Running # evs) r = wait_loop evs r"
| "wait_loop (Child_Exited # evs) r = r\<lparr>ending := Exited 0\<rparr>"
| "wait_loop (Keyboard_Interrupt # evs) r =
     r\<lparr>stdout := stdout r @ [''  Program terminated''],
       terminate_requests := terminate_requests r + 1,
       ending := Exited 0\<rparr>"

text \<open>
  The body under \<open>__main__\<close>, on the parsed arguments \<open>args.test\<close> and \<open>args.aes\<close>.
  \<open>launch_ok\<close> says whether \<open>Popen\<close> starts the child; when it does not, its exception
  ends the run.
\<close>

definition main :: "'f float_ops \<Rightarrow> bool \<Rightarrow> int \<Rightarrow> string \<Rightarrow> event list \<Rightarrow> run" where
  "main F launch_ok test aes evs =
     (case test_cases F test of
        None \<Rightarrow>
          \<lparr>stdout = [''Test '' @ str_int test @ '' not found''], launched = [],
           terminate_requests = 0, ending = Exited 1\<rparr>
      | Some gen \<Rightarrow>
          (let aes = split_sep CHR '' '' (strip aes);
               (printed, proc_args) = gen aes;
               out = printed @ [''Running C program...'' @ [char_of (10::nat)]]
           in if launch_ok
              then wait_loop evs
                     \<lparr>stdout = out, launched = [''./main'' # proc_args],
                      terminate_requests = 0, ending = Waiting\<rparr>
              else \<lparr>stdout = out, launched = [], terminate_requests = 0, ending = Fault\<rparr>))"

text \<open>
  The generators again, as calls made in a state of the interpreter.  The script imports
  \<open>random\<close> and \<open>time\<close>: the state holds the state of the \<open>random\<close> module's generator
  and the clock, which a call could read and change, and the lines printed so far, which
  \<open>print\<close> extends.  A call takes the state and returns its token list with the state
  it leaves.
\<close>

record interp =
  random_state :: nat
  clock :: nat
  printed :: "string list"

definition py_print :: "string \<Rightarrow> interp \<Rightarrow> interp" where
  "py_print s w = w\<lparr>printed := printed w @ [s]\<rparr>"

definition test1_call :: "'f float_ops \<Rightarrow> string list \<Rightarrow> interp \<Rightarrow> string list \<times> interp" where
  "test1_call F aes w =
     (let x = map (\<lambda>i. true_div F i 10) (py_range 0 100);
          y = map (math_sin F) x;
          w = py_print (len_line x y) w
      in ([''-x'', to_str (str_float F) x, ''-y'', to_str (str_float F) y] @ aes, w))"

definition test2_call :: "string list \<Rightarrow> interp \<Rightarrow> string list \<times> interp" where
  "test2_call aes w =
     (let x = py_range 0 5;
          y = py_range 0 8;
          y = y @ y;
          w = py_print (join '', '' (map str_int x)) w;
          w = py_print (join '', '' (map str_int y)) w
      in ([''-x'', to_str str_int x, ''-y'', to_str str_int y] @ aes, w))"

definition test3_call :: "'f float_ops \<Rightarrow> string list \<Rightarrow> interp \<Rightarrow> string list \<times> interp" where
  "test3_call F aes w =
     (let x = map (\<lambda>i. true_div F i 5) (py_range 0 5);
          y = map (math_sin F) x;
          w = py_print (len_line x y) w
      in ([''-x'', to_str (str_float F) x, ''-y'', to_str (str_float F) y] @ aes, w))"

definition test4_call :: "string list \<Rightarrow> interp \<Rightarrow> string list \<times> interp" where
  \<open>test4_call aes w =
     (let args = ''-P -x "1,2,3" -y "1,4,9" -t lines -c red'' @ '' '' @
                 ''-P -x "1,2,3" -y "2,3,4" -t points -c blue'';
          args = split_sep CHR '' '' args;
          w = py_print (repr_list args) w
      in (args, w))\<close>

definition test5_call :: "string list \<Rightarrow> interp \<Rightarrow> string list \<times> interp" where
  \<open>test5_call aes w =
     (let args = ''-P --file test.dat -x1 -y2 -t lines -c red'' @ '' '' @
                 ''-P -x "1,2,3,4" -y "3,6,9,12" -t points -c blue'';
          args = split_sep CHR '' '' args;
          w = py_print (repr_list args) w
      in (args, w))\<close>

definition test6_call :: "string list \<Rightarrow> interp \<Rightarrow> string list \<times> interp" where
  \<open>test6_call aes w =
     (let args = ''-P -x "1,2,3,4" -y "3,6,9,12" -t points -c blue'' @ '' '' @
                 ''-P --file test.dat -x1 -y2 -t lines -c red'';
          args = split_sep CHR '' '' args;
          w = py_print (repr_list args) w
      in (args, w))\<close>

text \<open>\<open>test_cases[args.test](aes)\<close> in a state of the interpreter.\<close>

definition test_cases_call ::
  "'f float_ops \<Rightarrow> int \<rightharpoonup> (string list \<Rightarrow> interp \<Rightarrow> string list \<times> interp)" where
  "test_cases_call F =
     map_of [(1, test1_call F), (2, test2_call), (3, test3_call F), (4, test4_call),
             (5, test5_call), (6, test6_call)]"

definition invoke ::
  "'f float_ops \<Rightarrow> int \<Rightarrow> string list \<Rightarrow> interp \<Rightarrow> (string list \<times> interp) option" where
  "invoke F test aes w =
     (case test_cases_call F test of
        None \<Rightarrow> None
      | Some gen \<Rightarrow> Some (gen aes w))"

section \<open>Evaluation of the fixed parts\<close>

lemma test2_x_eval: "test2_x = [0, 1, 2, 3, 4]"
  by code_simp

lemma test2_y_eval: "test2_y = [0, 1, 2, 3, 4, 5, 6, 7, 0, 1, 2, 3, 4, 5, 6, 7]"
  by code_simp

lemma test2_x_str: "to_str str_int test2_x = ''0, 1, 2, 3, 4''"
  by code_simp

lemma test2_y_str:
  "to_str str_int test2_y = ''0, 1, 2, 3, 4, 5, 6, 7, 0, 1, 2, 3, 4, 5, 6, 7''"
  by code_simp

lemma py_range_length: "length (py_range a b) = nat (b - a)"
  by (simp add: py_range_def)

lemma py_range_nth: "int i < b - a \<Longrightarrow> py_range a b ! i = a + int i"
  by (simp add: py_range_def)

lemma test4_tokens_eval:
  \<open>snd (test4 aes) =
     [''-P'', ''-x'', ''"1,2,3"'', ''-y'', ''"1,4,9"'', ''-t'', ''lines'', ''-c'', ''red'',
      ''-P'', ''-x'', ''"1,2,3"'', ''-y'', ''"2,3,4"'', ''-t'', ''points'', ''-c'', ''blue'']\<close>
  by (simp add: test4_def Let_def)

lemma test5_tokens_eval:
  \<open>snd (test5 aes) =
     [''-P'', ''--file'', ''test.dat'', ''-x1'', ''-y2'', ''-t'', ''lines'', ''-c'', ''red'',
      ''-P'', ''-x'', ''"1,2,3,4"'', ''-y'', ''"3,6,9,12"'', ''-t'', ''points'', ''-c'', ''blue'']\<close>
  by (simp add: test5_def Let_def)

lemma test6_tokens_eval:
  \<open>snd (test6 aes) =
     [''-P'', ''-x'', ''"1,2,3,4"'', ''-y'', ''"3,6,9,12"'', ''-t'', ''points'', ''-c'', ''blue'',
      ''-P'', ''--file'', ''test.dat'', ''-x1'', ''-y2'', ''-t'', ''lines'', ''-c'', ''red'']\<close>
  by (simp add: test6_def Let_def)

lemma test_cases_dom: "dom (test_cases F) = {1, 2, 3, 4, 5, 6}"
  by (auto simp: test_cases_def split: if_splits)

lemma wait_loop_no_interrupt:
  "Keyboard_Interrupt \<notin> set evs \<Longrightarrow> terminate_requests (wait_loop evs r) = terminate_requests r"
  by (induction evs r rule: wait_loop.induct) simp_all

lemma wait_loop_at_most_one:
  "terminate_requests (wait_loop evs r) \<le> terminate_requests r + 1"
  by (induction evs r rule: wait_loop.induct) simp_all

lemma wait_loop_skip_running:
  "wait_loop (replicate k Child_Running @ evs) r = wait_loop evs r"
  by (induction k) simp_all

lemma wait_loop_ending:
  "ending r \<noteq> Exited 1 \<Longrightarrow> ending (wait_loop evs r) \<noteq> Exited 1"
  by (induction evs r rule: wait_loop.induct) simp_all

lemma wait_loop_stdout:
  "s \<in> set (stdout r) \<Longrightarrow> s \<in> set (stdout (wait_loop evs r))"
  by (induction evs r rule: wait_loop.induct) simp_all

lemma main_known:
  "test_cases F t = Some gen \<Longrightarrow>
   main F True t aes evs =
     wait_loop evs
       \<lparr>stdout = fst (gen (split_sep CHR '' '' (strip aes))) @
                   [''Running C program...'' @ [char_of (10::nat)]],
        launched = [''./main'' # snd (gen (split_sep CHR '' '' (strip aes)))],
        terminate_requests = 0, ending = Waiting\<rparr>"
  by (simp add: main_def Let_def split_beta)

lemma main_launch_fails:
  "test_cases F t = Some gen \<Longrightarrow>
   main F False t aes evs =
       \<lparr>stdout = fst (gen (split_sep CHR '' '' (strip aes))) @
                   [''Running C program...'' @ [char_of (10::nat)]],
        launched = [],
        terminate_requests = 0, ending = Fault\<rparr>"
  by (simp add: main_def Let_def split_beta)

section \<open>Scenario 2\<close>

text \<open>
  Claim C1, as amended.  In \<open>test2\<close> the list \<open>x\<close> has length 5 and the list \<open>y\<close> has
  length 16: twice the length 8 of the range it is built from, not twice the length of
  \<open>x\<close>.  \<open>y\<close> is its own first half repeated twice.
\<close>

theorem test2_series:
  "length test2_x = 5 \<and> length test2_y = 16 \<and>
   length test2_y = 2 * length (py_range 0 8) \<and>
   test2_y = take (length test2_y div 2) test2_y @ take (length test2_y div 2) test2_y"
  by (simp add: test2_x_eval test2_y_eval py_range_length)

text \<open>
  Claim C1 as written fails: the length of \<open>y\<close> is 16 and twice the length of \<open>x\<close> is 10.
\<close>

theorem test2_y_not_double_x:
  "\<not> (length test2_y = 2 * length test2_x \<and>
      test2_y = take (length test2_y div 2) test2_y @ take (length test2_y div 2) test2_y)"
  by (simp add: test2_x_eval test2_y_eval)

section \<open>The tokens given to the child\<close>

text \<open>
  Claim C2.  With the default \<open>aes\<close>, the empty string, \<open>"".strip().split(" ")\<close> is the
  list of one empty token, so the child of scenario 2 gets a fifth, empty token after the
  four base tokens.
\<close>

theorem default_aes_adds_empty_token:
  "launched (main sym_ops True 2 '''' [Child_Exited]) =
     [[''./main'', ''-x'', ''0, 1, 2, 3, 4'', ''-y'',
       ''0, 1, 2, 3, 4, 5, 6, 7, 0, 1, 2, 3, 4, 5, 6, 7'', '''']]"
  by code_simp

text \<open>
  Claim C10.  For every \<open>aes\<close>, the token lists of \<open>test1\<close>, \<open>test2\<close> and \<open>test3\<close> have
  \<open>-x\<close> at position 0, \<open>-y\<close> at position 2, the renderings of \<open>x\<close> and \<open>y\<close> joined by a
  comma and a space at positions 1 and 3, and then the tokens of \<open>aes\<close>: 4 plus the
  number of \<open>aes\<close> tokens in all.
\<close>

theorem base_tokens_shape:
  "(let r = snd (test1 F aes) in
      r ! 0 = ''-x'' \<and> r ! 1 = join '', '' (map (str_float F) (test1_x F)) \<and>
      r ! 2 = ''-y'' \<and> r ! 3 = join '', '' (map (str_float F) (test1_y F)) \<and>
      length r = 4 + length aes \<and> drop 4 r = aes) \<and>
   (let r = snd (test2 aes) in
      r ! 0 = ''-x'' \<and> r ! 1 = join '', '' (map str_int test2_x) \<and>
      r ! 1 = ''0, 1, 2, 3, 4'' \<and>
      r ! 2 = ''-y'' \<and> r ! 3 = join '', '' (map str_int test2_y) \<and>
      r ! 3 = ''0, 1, 2, 3, 4, 5, 6, 7, 0, 1, 2, 3, 4, 5, 6, 7'' \<and>
      length r = 4 + length aes \<and> drop 4 r = aes) \<and>
   (let r = snd (test3 F aes) in
      r ! 0 = ''-x'' \<and> r ! 1 = join '', '' (map (str_float F) (test3_x F)) \<and>
      r ! 2 = ''-y'' \<and> r ! 3 = join '', '' (map (str_float F) (test3_y F)) \<and>
      length r = 4 + length aes \<and> drop 4 r = aes)"
  using test2_x_str test2_y_str
  by (simp add: test1_def test2_def test3_def Let_def to_str_def)

section \<open>Unknown scenarios\<close>

text \<open>
  Claim C3.  For a scenario identifier outside the table, the run prints
  \<open>Test <id> not found\<close>, ends with exit status 1 and starts no child.  For an identifier
  of the table that branch is not taken: the run prints \<open>Running C program...\<close> and does
  not end with exit status 1 (a child that cannot be started ends the run by an exception,
  which the model keeps apart from \<open>exit(1)\<close>).  The table has the six identifiers 1 to 6.
\<close>

theorem unknown_scenario_exits:
  "(t \<notin> dom (test_cases F) \<longrightarrow>
      main F launch_ok t aes evs =
        \<lparr>stdout = [''Test '' @ str_int t @ '' not found''], launched = [],
         terminate_requests = 0, ending = Exited 1\<rparr>) \<and>
   (t \<in> dom (test_cases F) \<longrightarrow>
      ending (main F launch_ok t aes evs) \<noteq> Exited 1 \<and>
      ''Running C program...'' @ [char_of (10::nat)] \<in> set (stdout (main F launch_ok t aes evs))) \<and>
   dom (test_cases F) = {1, 2, 3, 4, 5, 6}"
proof (intro conjI impI)
  assume "t \<notin> dom (test_cases F)"
  then have "test_cases F t = None" by blast
  then show "main F launch_ok t aes evs =
        \<lparr>stdout = [''Test '' @ str_int t @ '' not found''], launched = [],
         terminate_requests = 0, ending = Exited 1\<rparr>"
    by (simp add: main_def)
next
  assume "t \<in> dom (test_cases F)"
  then obtain gen where g: "test_cases F t = Some gen" by blast
  show "ending (main F launch_ok t aes evs) \<noteq> Exited 1"
  proof (cases launch_ok)
    case True
    then show ?thesis using g by (simp add: main_known wait_loop_ending)
  next
    case False
    then show ?thesis using g by (simp add: main_launch_fails)
  qed
next
  assume "t \<in> dom (test_cases F)"
  then obtain gen where g: "test_cases F t = Some gen" by blast
  show "''Running C program...'' @ [char_of (10::nat)] \<in> set (stdout (main F launch_ok t aes evs))"
  proof (cases launch_ok)
    case True
    then show ?thesis using g by (simp add: main_known wait_loop_stdout)
  next
    case False
    then show ?thesis using g by (simp add: main_launch_fails)
  qed
next
  show "dom (test_cases F) = {1, 2, 3, 4, 5, 6}" by (rule test_cases_dom)
qed

theorem unknown_scenario_exits_witness:
  "7 \<notin> dom (test_cases sym_ops) \<and>
   main sym_ops True 7 '''' [] =
     \<lparr>stdout = [''Test 7 not found''], launched = [], terminate_requests = 0,
      ending = Exited 1\<rparr> \<and>
   2 \<in> dom (test_cases sym_ops) \<and>
   ending (main sym_ops True 2 '''' [Child_Exited]) \<noteq> Exited 1"
proof -
  have d: "dom (test_cases sym_ops) = {1, 2, 3, 4, 5, 6}"
    using unknown_scenario_exits [of 7 sym_ops True "''''" "[]"] by blast
  have a: "7 \<notin> dom (test_cases sym_ops)" and b: "2 \<in> dom (test_cases sym_ops)"
    by (simp_all add: d)
  have s: "str_int 7 = ''7''" by code_simp
  show ?thesis
    using a b s unknown_scenario_exits [of 7 sym_ops True "''''" "[]"]
      unknown_scenario_exits [of 2 sym_ops True "''''" "[Child_Exited]"]
    by simp
qed

section \<open>Scenarios 1 and 3\<close>

text \<open>
  Claim C4.  In \<open>test1\<close>, \<open>x\<close> and \<open>y\<close> have length 100, \<open>x[i]\<close> is \<open>i/10\<close> and \<open>y[i]\<close> is the
  sine of \<open>x[i]\<close>, for every \<open>i\<close> below 100 and every record of float operations.
\<close>

theorem test1_series:
  "length (test1_x F) = 100 \<and> length (test1_y F) = 100 \<and>
   (\<forall>i<100. test1_x F ! i = true_div F (int i) 10 \<and>
            test1_y F ! i = math_sin F (test1_x F ! i))"
  by (simp add: test1_x_def test1_y_def py_range_length py_range_nth)

theorem test1_series_witness:
  "(7::nat) < 100 \<and> test1_x sym_ops ! 7 = Quot 7 10 \<and> test1_y sym_ops ! 7 = Sin (Quot 7 10)"
  using test1_series [of sym_ops] by (simp add: sym_ops_def)

text \<open>
  Claim C6.  In \<open>test3\<close>, \<open>x\<close> and \<open>y\<close> have length 5, \<open>x[i]\<close> is \<open>i/5\<close> and \<open>y[i]\<close> is the
  sine of \<open>x[i]\<close>, for every \<open>i\<close> below 5 and every record of float operations.
\<close>

theorem test3_series:
  "length (test3_x F) = 5 \<and> length (test3_y F) = 5 \<and>
   (\<forall>i<5. test3_x F ! i = true_div F (int i) 5 \<and>
          test3_y F ! i = math_sin F (test3_x F ! i))"
  by (simp add: test3_x_def test3_y_def py_range_length py_range_nth)

theorem test3_series_witness:
  "(2::nat) < 5 \<and> test3_x sym_ops ! 2 = Quot 2 5 \<and> test3_y sym_ops ! 2 = Sin (Quot 2 5)"
  using test3_series [of sym_ops] by (simp add: sym_ops_def)

section \<open>Scenarios 4, 5 and 6\<close>

text \<open>
  Claim C5.  For every \<open>aes\<close>, \<open>test4\<close> returns the eighteen fixed tokens: the tokens of
  the first literal split on single spaces, then those of the second.  The result, printed
  line included, does not depend on \<open>aes\<close>.
\<close>

theorem test4_fixed_tokens:
  \<open>snd (test4 aes) =
     [''-P'', ''-x'', ''"1,2,3"'', ''-y'', ''"1,4,9"'', ''-t'', ''lines'', ''-c'', ''red'',
      ''-P'', ''-x'', ''"1,2,3"'', ''-y'', ''"2,3,4"'', ''-t'', ''points'', ''-c'', ''blue''] \<and>
   snd (test4 aes) =
     split_sep CHR '' '' ''-P -x "1,2,3" -y "1,4,9" -t lines -c red'' @
     split_sep CHR '' '' ''-P -x "1,2,3" -y "2,3,4" -t points -c blue'' \<and>
   test4 aes = test4 aes'\<close>
  by (simp add: test4_tokens_eval) (simp add: test4_def)

text \<open>
  Claim C8.  For every \<open>aes\<close>, \<open>test5\<close> returns the file-backed group and then the inline
  group, \<open>test6\<close> returns the inline group and then the file-backed group, and neither
  result depends on \<open>aes\<close>.
\<close>

theorem test5_test6_swapped:
  \<open>snd (test5 aes) =
     split_sep CHR '' '' ''-P --file test.dat -x1 -y2 -t lines -c red'' @
     split_sep CHR '' '' ''-P -x "1,2,3,4" -y "3,6,9,12" -t points -c blue'' \<and>
   snd (test6 aes) =
     split_sep CHR '' '' ''-P -x "1,2,3,4" -y "3,6,9,12" -t points -c blue'' @
     split_sep CHR '' '' ''-P --file test.dat -x1 -y2 -t lines -c red'' \<and>
   test5 aes = test5 aes' \<and> test6 aes = test6 aes'\<close>
  by (simp add: test5_tokens_eval test6_tokens_eval) (simp add: test5_def test6_def)

section \<open>The wait loop\<close>

text \<open>
  Claim C7.  For a scenario of the table whose child started: when the turns of the wait
  loop see the child running and then a \<open>KeyboardInterrupt\<close>, the run has made one
  termination request, its last printed line is \<open>  Program terminated\<close> and it has ended
  with exit status 0, whatever comes after.  When no turn sees an interrupt, the run has
  made no termination request.  No run makes more than one.
\<close>

theorem interrupt_terminates_once:
  "t \<in> dom (test_cases F) \<Longrightarrow>
   (evs = replicate k Child_Running @ Keyboard_Interrupt # rest \<longrightarrow>
      terminate_requests (main F True t aes evs) = 1 \<and>
      last (stdout (main F True t aes evs)) = ''  Program terminated'' \<and>
      ending (main F True t aes evs) = Exited 0) \<and>
   (Keyboard_Interrupt \<notin> set evs \<longrightarrow>
      terminate_requests (main F launch_ok t aes evs) = 0) \<and>
   terminate_requests (main F launch_ok t aes evs) \<le> 1"
proof -
  assume "t \<in> dom (test_cases F)"
  then obtain gen where g: "test_cases F t = Some gen" by blast
  have one: "terminate_requests (main F launch_ok t aes evs) \<le> 1"
  proof (cases launch_ok)
    case True
    show ?thesis
      using wait_loop_at_most_one [of evs
         "\<lparr>stdout = fst (gen (split_sep CHR '' '' (strip aes))) @
                   [''Running C program...'' @ [char_of (10::nat)]],
        launched = [''./main'' # snd (gen (split_sep CHR '' '' (strip aes)))],
        terminate_requests = 0, ending = Waiting\<rparr>"] True g
      by (simp add: main_known)
  next
    case False
    then show ?thesis using g by (simp add: main_launch_fails)
  qed
  have none: "Keyboard_Interrupt \<notin> set evs \<Longrightarrow>
      terminate_requests (main F launch_ok t aes evs) = 0"
    using g by (cases launch_ok) (simp_all add: main_known main_launch_fails wait_loop_no_interrupt)
  have intr: "evs = replicate k Child_Running @ Keyboard_Interrupt # rest \<Longrightarrow>
      terminate_requests (main F True t aes evs) = 1 \<and>
      last (stdout (main F True t aes evs)) = ''  Program terminated'' \<and>
      ending (main F True t aes evs) = Exited 0"
    using g by (simp add: main_known wait_loop_skip_running)
  show ?thesis using one none intr by blast
qed

theorem interrupt_terminates_once_witness:
  "2 \<in> dom (test_cases sym_ops) \<and>
   [Child_Running, Keyboard_Interrupt, Child_Running] =
      replicate 1 Child_Running @ Keyboard_Interrupt # [Child_Running] \<and>
   terminate_requests
     (main sym_ops True 2 '''' [Child_Running, Keyboard_Interrupt, Child_Running]) = 1 \<and>
   ending (main sym_ops True 2 '''' [Child_Running, Keyboard_Interrupt, Child_Running]) = Exited 0 \<and>
   Keyboard_Interrupt \<notin> set [Child_Running, Child_Exited] \<and>
   terminate_requests (main sym_ops True 2 '''' [Child_Running, Child_Exited]) = 0"
proof -
  have b: "2 \<in> dom (test_cases sym_ops)" by (simp add: test_cases_dom)
  have e: "[Child_Running, Keyboard_Interrupt, Child_Running] =
      replicate 1 Child_Running @ Keyboard_Interrupt # [Child_Running]" by simp
  have n: "Keyboard_Interrupt \<notin> set [Child_Running, Child_Exited]" by simp
  show ?thesis
    using b e n
      interrupt_terminates_once [OF b, of "[Child_Running, Keyboard_Interrupt, Child_Running]" 1
        "[Child_Running]" "''''" True]
      interrupt_terminates_once [OF b, of "[Child_Running, Child_Exited]" 0 "[]" "''''" True]
    by simp
qed

section \<open>Determinism\<close>

text \<open>
  Each call leaves the token list and the printed lines of the generator of the same
  name, and the rest of the state as it was.
\<close>

lemma test1_call_eq:
  "test1_call F aes w = (snd (test1 F aes), w\<lparr>printed := printed w @ fst (test1 F aes)\<rparr>)"
  by (simp add: test1_call_def test1_def test1_x_def test1_y_def py_print_def Let_def)

lemma test2_call_eq:
  "test2_call aes w = (snd (test2 aes), w\<lparr>printed := printed w @ fst (test2 aes)\<rparr>)"
  by (simp add: test2_call_def test2_def test2_x_def test2_y_def py_print_def Let_def)

lemma test3_call_eq:
  "test3_call F aes w = (snd (test3 F aes), w\<lparr>printed := printed w @ fst (test3 F aes)\<rparr>)"
  by (simp add: test3_call_def test3_def test3_x_def test3_y_def py_print_def Let_def)

lemma test4_call_eq:
  "test4_call aes w = (snd (test4 aes), w\<lparr>printed := printed w @ fst (test4 aes)\<rparr>)"
  by (simp add: test4_call_def test4_def py_print_def Let_def)

lemma test5_call_eq:
  "test5_call aes w = (snd (test5 aes), w\<lparr>printed := printed w @ fst (test5 aes)\<rparr>)"
  by (simp add: test5_call_def test5_def py_print_def Let_def)

lemma test6_call_eq:
  "test6_call aes w = (snd (test6 aes), w\<lparr>printed := printed w @ fst (test6 aes)\<rparr>)"
  by (simp add: test6_call_def test6_def py_print_def Let_def)

text \<open>
  Claim C9.  For each of the six scenario identifiers and every \<open>aes\<close> token list, a call
  of the generator returns, and two calls made in any two states of the interpreter
  (whatever the state of \<open>random\<close>, the clock and the lines already printed) return the
  same token list and print the same lines; the call leaves the state of \<open>random\<close> and
  the clock as it found them.
\<close>

theorem generators_deterministic:
  "t \<in> {1, 2, 3, 4, 5, 6} \<Longrightarrow>
   (\<exists>toks out.
      (\<forall>w. \<exists>w1. invoke F t aes w = Some (toks, w1) \<and>
                 printed w1 = printed w @ out \<and>
                 random_state w1 = random_state w \<and> clock w1 = clock w))"
proof -
  assume "t \<in> {1, 2, 3, 4, 5, 6}"
  then consider "t = 1" | "t = 2" | "t = 3" | "t = 4" | "t = 5" | "t = 6" by auto
  then show ?thesis
  proof cases
    case 1
    then show ?thesis
      by (intro exI [of _ "snd (test1 F aes)"] exI [of _ "fst (test1 F aes)"])
         (simp add: invoke_def test_cases_call_def test1_call_eq)
  next
    case 2
    then show ?thesis
      by (intro exI [of _ "snd (test2 aes)"] exI [of _ "fst (test2 aes)"])
         (simp add: invoke_def test_cases_call_def test2_call_eq)
  next
    case 3
    then show ?thesis
      by (intro exI [of _ "snd (test3 F aes)"] exI [of _ "fst (test3 F aes)"])
         (simp add: invoke_def test_cases_call_def test3_call_eq)
  next
    case 4
    then show ?thesis
      by (intro exI [of _ "snd (test4 aes)"] exI [of _ "fst (test4 aes)"])
         (simp add: invoke_def test_cases_call_def test4_call_eq)
  next
    case 5
    then show ?thesis
      by (intro exI [of _ "snd (test5 aes)"] exI [of _ "fst (test5 aes)"])
         (simp add: invoke_def test_cases_call_def test5_call_eq)
  next
    case 6
    then show ?thesis
      by (intro exI [of _ "snd (test6 aes)"] exI [of _ "fst (test6 aes)"])
         (simp add: invoke_def test_cases_call_def test6_call_eq)
  qed
qed

theorem generators_deterministic_witness:
  "(2::int) \<in> {1, 2, 3, 4, 5, 6} \<and>
   map_option fst (invoke sym_ops 2 [''q''] \<lparr>random_state = 0, clock = 0, printed = []\<rparr>) =
   map_option fst
     (invoke sym_ops 2 [''q''] \<lparr>random_state = 17, clock = 5, printed = [''earlier'']\<rparr>) \<and>
   invoke sym_ops 2 [''q''] \<lparr>random_state = 0, clock = 0, printed = []\<rparr> \<noteq> None"
proof -
  have m: "(2::int) \<in> {1, 2, 3, 4, 5, 6}" by simp
  obtain toks out where
    h: "\<And>w. \<exists>w1. invoke sym_ops 2 [''q''] w = Some (toks, w1) \<and>
                 printed w1 = printed w @ out \<and>
                 random_state w1 = random_state w \<and> clock w1 = clock w"
    using generators_deterministic [OF m, of sym_ops "[''q'']"] by blast
  obtain wa where a:
    "invoke sym_ops 2 [''q''] \<lparr>random_state = 0, clock = 0, printed = []\<rparr> = Some (toks, wa)"
    using h [of "\<lparr>random_state = 0, clock = 0, printed = []\<rparr>"] by blast
  obtain wb where b:
    "invoke sym_ops 2 [''q''] \<lparr>random_state = 17, clock = 5, printed = [''earlier'']\<rparr> =
       Some (toks, wb)"
    using h [of "\<lparr>random_state = 17, clock = 5, printed = [''earlier'']\<rparr>"] by blast
  show ?thesis using m a b by simp
qed

end
